theory Spec2Isabelle
  imports Complex_Main "HOL-Library.AList"
begin

section \<open>Ball-tracking camera controller\<close>

text \<open>
  A shallow embedding of \<^verbatim>\<open>camera_controller.py\<close>. Python floats are modelled as
  \<^typ>\<open>real\<close>: arithmetic is exact, and rounding, NaN and the infinities are outside the
  model. Python integers are \<^typ>\<open>int\<close>. Every exception the program can raise is a
  value of \<open>error\<close>; a function that can raise returns \<open>error + 'a\<close>.
\<close>

subsection \<open>Values, errors and the configuration\<close>

datatype error =
    ZeroDivisionError
  | ValueError
  | KeyboardInterrupt
  | JSONDecodeError
  | AttributeError
  | EOFError

text \<open>The values a flat JSON record can hold (nested arrays and objects are left out).\<close>

datatype pyvalue = PyInt int | PyFloat real | PyStr string | PyBool bool | PyNone

text \<open>
  The dataclass \<^verbatim>\<open>CameraConfig\<close>. Its eight annotated fields are typed as annotated.
  A Python object also takes attributes it does not declare (\<^verbatim>\<open>setattr\<close> with a new
  name); they are kept, in insertion order, in \<open>extra_attrs\<close>.
\<close>

record CameraConfig =
  field_width :: real
  field_height :: real
  pan_scale :: real
  tilt_scale :: real
  min_zoom :: int
  max_zoom :: int
  min_distance :: real
  max_distance :: real
  extra_attrs :: "(string \<times> pyvalue) list"

definition default_config :: CameraConfig where
  "default_config =
     \<lparr>field_width = 6000, field_height = 4000, pan_scale = 1.0, tilt_scale = 1.0,
      min_zoom = 0, max_zoom = 100, min_distance = 1000, max_distance = 5000,
      extra_attrs = []\<rparr>"

subsection \<open>Python primitives\<close>

text \<open>True division raises on a zero divisor.\<close>

definition py_truediv :: "real \<Rightarrow> real \<Rightarrow> error + real" where
  "py_truediv a b = (if b = 0 then Inl ZeroDivisionError else Inr (a / b))"

text \<open>\<^verbatim>\<open>math.sqrt\<close> raises on a negative argument.\<close>

definition py_sqrt :: "real \<Rightarrow> error + real" where
  "py_sqrt a = (if a < 0 then Inl ValueError else Inr (sqrt a))"

text \<open>\<^verbatim>\<open>int(r)\<close> of a float drops the fractional part.\<close>

definition py_int :: "real \<Rightarrow> int" where
  "py_int r = (if 0 \<le> r then \<lfloor>r\<rfloor> else \<lceil>r\<rceil>)"



subsection \<open>The coordinate transforms\<close>

definition calculate_camera_angles :: "CameraConfig \<Rightarrow> real \<Rightarrow> real \<Rightarrow> error + (real \<times> real)" where
  "calculate_camera_angles cfg x y =
     (case py_truediv x (field_width cfg / 2) of
        Inl e \<Rightarrow> Inl e
      | Inr rel_x \<Rightarrow>
          (case py_truediv y (field_height cfg / 2) of
             Inl e \<Rightarrow> Inl e
           | Inr rel_y \<Rightarrow>
               (let pan_angle = rel_x * 129 * pan_scale cfg;
                    tilt_angle = rel_y * 59 * tilt_scale cfg
                in Inr (max (- 129) (min 129 pan_angle), max (- 59) (min 59 tilt_angle)))))"

definition calculate_zoom :: "CameraConfig \<Rightarrow> real \<Rightarrow> real \<Rightarrow> error + int" where
  "calculate_zoom cfg x y =
     (case py_sqrt (x * x + y * y) of
        Inl e \<Rightarrow> Inl e
      | Inr distance \<Rightarrow>
          if distance \<le> min_distance cfg then Inr (max_zoom cfg)
          else if distance \<ge> max_distance cfg then Inr (min_zoom cfg)
          else
            (let zoom_range = max_zoom cfg - min_zoom cfg;
                 distance_range = max_distance cfg - min_distance cfg
             in case py_truediv (real_of_int zoom_range * (distance - min_distance cfg))
                       distance_range of
                  Inl e \<Rightarrow> Inl e
                | Inr q \<Rightarrow>
                    (let zoom = real_of_int (max_zoom cfg) - q
                     in Inr (py_int (max (real_of_int (min_zoom cfg))
                                        (min (real_of_int (max_zoom cfg)) zoom))))))"

subsection \<open>The camera object and its surroundings\<close>

text \<open>
  An OSC message is its address and its arguments. \<open>osc_sent\<close> is the list of the
  messages handed to \<^verbatim>\<open>osc_client.send_message\<close>, oldest first; sending is
  fire-and-forget and does not fail in the model. What the program prints is \<open>printed\<close>;
  the line of the two scales, formatted to two decimals by the program, is kept as the
  two numbers. \<open>files\<close> is the file system, by file name.
\<close>

type_synonym osc_message = "string \<times> int list"

datatype stdout_line = Text string | CurrentScales real real

datatype file_content =
    JsonObject "(string \<times> pyvalue) list"
  | JsonOther
  | NotJson

record BallTrackingCamera =
  config :: CameraConfig
  osc_sent :: "osc_message list"
  printed :: "stdout_line list"
  files :: "string \<rightharpoonup> file_content"

definition send_message :: "string \<Rightarrow> int list \<Rightarrow> BallTrackingCamera \<Rightarrow> BallTrackingCamera" where
  "send_message address args s = s\<lparr>osc_sent := osc_sent s @ [(address, args)]\<rparr>"

definition print :: "stdout_line \<Rightarrow> BallTrackingCamera \<Rightarrow> BallTrackingCamera" where
  "print line s = s\<lparr>printed := printed s @ [line]\<rparr>"

definition initialize_camera :: "BallTrackingCamera \<Rightarrow> BallTrackingCamera" where
  "initialize_camera s =
     send_message ''/OBSBOT/WebCam/General/ResetGimbal'' [1]
       (send_message ''/OBSBOT/WebCam/General/SelectDevice'' [0]
         (send_message ''/OBSBOT/WebCam/General/Connected'' [1] s))"

text \<open>
  The constructor: the object starts with the configuration it is given and initialises
  the camera. (Binding the socket is left out.) Nothing is printed yet; the file system
  is what the program finds.
\<close>

definition BallTrackingCamera_init ::
  "CameraConfig \<Rightarrow> (string \<rightharpoonup> file_content) \<Rightarrow> BallTrackingCamera" where
  "BallTrackingCamera_init cfg fs =
     initialize_camera \<lparr>config = cfg, osc_sent = [], printed = [], files = fs\<rparr>"

subsection \<open>Receiving a detection\<close>

text \<open>
  What one call of \<^verbatim>\<open>recvfrom\<close> and the decoding after it can do: the operator
  interrupts the blocked call, the socket or the decoder raises (with the text of the
  exception), or a frame arrives with its balls, each \<open>(x, y, confidence)\<close>.
\<close>

type_synonym ball = "real \<times> real \<times> real"

datatype recv_event = Interrupt | RecvError string | Frame "ball list"

definition confidence :: "ball \<Rightarrow> real" where
  "confidence b = snd (snd b)"

text \<open>\<^verbatim>\<open>max(balls, key=...)\<close> keeps the first ball among those of greatest key.\<close>

fun max_ball :: "ball \<Rightarrow> ball list \<Rightarrow> ball" where
  "max_ball best [] = best"
| "max_ball best (b # bs) =
     (if confidence b > confidence best then max_ball b bs else max_ball best bs)"

definition receive_ssl_frame ::
  "recv_event \<Rightarrow> BallTrackingCamera \<Rightarrow> (error + ball option) \<times> BallTrackingCamera" where
  "receive_ssl_frame ev s =
     (case ev of
        Interrupt \<Rightarrow> (Inl KeyboardInterrupt, s)
      | RecvError msg \<Rightarrow> (Inr None, print (Text (''Error receiving SSL frame: '' @ msg)) s)
      | Frame balls \<Rightarrow>
          (case balls of
             [] \<Rightarrow> (Inr None, s)
           | b # bs \<Rightarrow> (Inr (Some (max_ball b bs)), s)))"

subsection \<open>Moving the camera and the tracking loop\<close>

definition move_camera :: "real \<Rightarrow> real \<Rightarrow> int \<Rightarrow> BallTrackingCamera \<Rightarrow> BallTrackingCamera" where
  "move_camera pan tilt zoom s =
     send_message ''/OBSBOT/WebCam/General/SetZoom'' [zoom]
       (send_message ''/OBSBOT/WebCam/General/SetGimMotorDegree'' [90, py_int pan, py_int tilt] s)"

text \<open>
  The body of the \<^verbatim>\<open>while True\<close> loop of \<^verbatim>\<open>run\<close>, up to the sleep. An exception
  leaves the body with the state reached so far.
\<close>

definition tick :: "recv_event \<Rightarrow> BallTrackingCamera \<Rightarrow> (error + unit) \<times> BallTrackingCamera" where
  "tick ev s =
     (case receive_ssl_frame ev s of
        (Inl e, s1) \<Rightarrow> (Inl e, s1)
      | (Inr None, s1) \<Rightarrow> (Inr (), s1)
      | (Inr (Some (x, y, conf)), s1) \<Rightarrow>
          if conf > 0.5 then
            (case calculate_camera_angles (config s1) x y of
               Inl e \<Rightarrow> (Inl e, s1)
             | Inr (pan, tilt) \<Rightarrow>
                 (case calculate_zoom (config s1) x y of
                    Inl e \<Rightarrow> (Inl e, s1)
                  | Inr zoom \<Rightarrow> (Inr (), move_camera pan tilt zoom s1)))
          else (Inr (), s1))"

text \<open>
  How a run of the loop over the events of its first ticks stands at their end:
  it has returned, an exception has left it, or it is still running and waits for the
  next event. The operator's interrupt is taken where the loop waits, in
  \<^verbatim>\<open>recvfrom\<close> (an interrupt of the sleep is the interrupt of the receive that follows).
\<close>

datatype outcome = Returned | Raised error | Running

fun run_loop :: "recv_event list \<Rightarrow> BallTrackingCamera \<Rightarrow> outcome \<times> BallTrackingCamera" where
  "run_loop [] s = (Running, s)"
| "run_loop (ev # evs) s =
     (case tick ev s of
        (Inl KeyboardInterrupt, s1) \<Rightarrow>
          (Returned,
           send_message ''/OBSBOT/WebCam/General/Disconnected'' [1]
             (print (Text ''\<newline>Stopping ball tracking...'') s1))
      | (Inl e, s1) \<Rightarrow> (Raised e, s1)
      | (Inr u, s1) \<Rightarrow> run_loop evs s1)"


subsection \<open>Saving and loading the configuration\<close>








subsection \<open>Calibration mode\<close>




section \<open>Properties\<close>

subsection \<open>Truncation\<close>

lemma py_int_of_int: "py_int (real_of_int i) = i"
  by (simp add: py_int_def)

lemma py_int_mono: "a \<le> b \<Longrightarrow> py_int a \<le> py_int b"
proof -
  assume ab: "a \<le> b"
  show ?thesis
  proof (cases "0 \<le> a")
    case True
    with ab show ?thesis by (simp add: py_int_def floor_mono)
  next
    case False
    show ?thesis
    proof (cases "0 \<le> b")
      case True
      have "py_int a = \<lceil>a\<rceil>" using False by (simp add: py_int_def)
      moreover have "py_int b = \<lfloor>b\<rfloor>" using True by (simp add: py_int_def)
      moreover have "\<lceil>a\<rceil> \<le> 0" using False by (simp add: ceiling_le_zero)
      moreover have "0 \<le> \<lfloor>b\<rfloor>" using True by simp
      ultimately show ?thesis by linarith
    next
      case b: False
      with False ab show ?thesis by (simp add: py_int_def ceiling_mono)
    qed
  qed
qed

lemma py_int_max: "py_int (max a b) = max (py_int a) (py_int b)"
  using py_int_mono [of a b] py_int_mono [of b a] by (auto simp: max_def)

lemma py_int_min: "py_int (min a b) = min (py_int a) (py_int b)"
  using py_int_mono [of a b] py_int_mono [of b a] by (auto simp: min_def)

subsection \<open>The angle transform\<close>

lemma calculate_camera_angles_returns:
  "field_width cfg \<noteq> 0 \<Longrightarrow> field_height cfg \<noteq> 0 \<Longrightarrow>
   \<exists>pan tilt. calculate_camera_angles cfg x y = Inr (pan, tilt)"
  by (simp add: calculate_camera_angles_def py_truediv_def Let_def)




subsection \<open>The zoom transform\<close>

lemma py_sqrt_total: "py_sqrt (x * x + y * y) = Inr (sqrt (x * x + y * y))"
proof -
  have "0 \<le> x * x + y * y" by simp
  then show ?thesis by (simp add: py_sqrt_def not_less [symmetric])
qed

text \<open>
  \<open>calculate_zoom\<close> never raises: the square root is of a sum of squares, and the
  division is reached only between the two distances, which are then different. The
  truncation moves inside the clamp, the bounds being integers.
\<close>

lemma calculate_zoom_cases:
  "calculate_zoom cfg x y =
     Inr (let distance = sqrt (x * x + y * y) in
          if distance \<le> min_distance cfg then max_zoom cfg
          else if max_distance cfg \<le> distance then min_zoom cfg
          else max (min_zoom cfg) (min (max_zoom cfg)
                 (py_int (real_of_int (max_zoom cfg) -
                    real_of_int (max_zoom cfg - min_zoom cfg) * (distance - min_distance cfg) /
                      (max_distance cfg - min_distance cfg)))))"
proof -
  let ?d = "sqrt (x * x + y * y)"
  show ?thesis
  proof (cases "?d \<le> min_distance cfg \<or> max_distance cfg \<le> ?d")
    case True
    then show ?thesis
      by (auto simp: calculate_zoom_def py_sqrt_total Let_def)
  next
    case False
    then have nz: "max_distance cfg - min_distance cfg \<noteq> 0" by auto
    from False nz show ?thesis
      by (simp add: calculate_zoom_def py_sqrt_total Let_def py_truediv_def
            py_int_max py_int_min py_int_of_int)
  qed
qed



lemma sqrt_3000: "sqrt (3000 * 3000 + 0 * 0) = (3000::real)"
  using real_sqrt_abs2 [of "3000::real"] by simp


text \<open>The zoom as a function of the distance alone falls as the distance grows.\<close>

lemma zoom_by_distance_antitone:
  fixes lo hi :: int and dmin dmax d1 d2 :: real
  assumes "lo \<le> hi" and "d1 \<le> d2"
  shows "(if d2 \<le> dmin then hi else if dmax \<le> d2 then lo
          else max lo (min hi (py_int (real_of_int hi - real_of_int (hi - lo) * (d2 - dmin) / (dmax - dmin)))))
       \<le> (if d1 \<le> dmin then hi else if dmax \<le> d1 then lo
          else max lo (min hi (py_int (real_of_int hi - real_of_int (hi - lo) * (d1 - dmin) / (dmax - dmin)))))"
proof -
  let ?f = "\<lambda>d. real_of_int hi - real_of_int (hi - lo) * (d - dmin) / (dmax - dmin)"
  have mid: "py_int (?f d2) \<le> py_int (?f d1)" if "dmin < d1" and "d2 < dmax"
  proof -
    have pos: "0 < dmax - dmin" using that assms(2) by linarith
    have "0 \<le> real_of_int (hi - lo)" using assms(1) by simp
    then have "real_of_int (hi - lo) * (d1 - dmin) \<le> real_of_int (hi - lo) * (d2 - dmin)"
      using assms(2) by (intro mult_left_mono) simp_all
    then have "real_of_int (hi - lo) * (d1 - dmin) / (dmax - dmin)
               \<le> real_of_int (hi - lo) * (d2 - dmin) / (dmax - dmin)"
      using pos by (simp add: divide_right_mono)
    then have "?f d2 \<le> ?f d1" by linarith
    then show ?thesis by (rule py_int_mono)
  qed
  show ?thesis
  proof (cases "d1 \<le> dmin")
    case True
    with assms(1) show ?thesis by auto
  next
    case near: False
    show ?thesis
    proof (cases "dmax \<le> d2")
      case True
      with near assms show ?thesis by auto
    next
      case False
      with near assms(2) have "dmin < d1" "d2 < dmax" "\<not> d2 \<le> dmin" "\<not> dmax \<le> d1" by auto
      with mid assms(1) show ?thesis by (simp add: max_def min_def)
    qed
  qed
qed

text \<open>
  C6: for a fixed configuration with \<open>min_zoom \<le> max_zoom\<close>, \<open>calculate_zoom\<close> is
  monotonically non-increasing in the distance \<open>sqrt (x * x + y * y)\<close>: of two positions,
  the one at the smaller or equal distance gets the greater or equal zoom.
\<close>

theorem calculate_zoom_antitone:
  assumes "min_zoom cfg \<le> max_zoom cfg"
    and "sqrt (x1 * x1 + y1 * y1) \<le> sqrt (x2 * x2 + y2 * y2)"
  shows "\<exists>zoom1 zoom2.
           calculate_zoom cfg x1 y1 = Inr zoom1 \<and> calculate_zoom cfg x2 y2 = Inr zoom2 \<and>
           zoom2 \<le> zoom1"
  unfolding calculate_zoom_cases Let_def
  using zoom_by_distance_antitone [OF assms] by blast

theorem calculate_zoom_antitone_witness:
  "min_zoom default_config \<le> max_zoom default_config \<and>
   sqrt (0 * 0 + 0 * 0) \<le> sqrt (3000 * 3000 + 0 * 0) \<and>
   (\<exists>zoom1 zoom2. calculate_zoom default_config 0 0 = Inr zoom1 \<and>
      calculate_zoom default_config 3000 0 = Inr zoom2 \<and> zoom2 \<le> zoom1)"
proof -
  have a: "min_zoom default_config \<le> max_zoom default_config"
    by (simp add: default_config_def)
  have b: "sqrt (0 * 0 + 0 * 0) \<le> sqrt (3000 * 3000 + 0 * 0 :: real)"
    by simp
  from a b calculate_zoom_antitone [OF a b] show ?thesis by blast
qed

subsection \<open>Dispatch\<close>

text \<open>
  \<open>py_int\<close> is truncation toward zero: it takes off less than one, never grows the
  magnitude and keeps the sign.
\<close>

lemma py_int_trunc:
  "\<bar>real_of_int (py_int r)\<bar> \<le> \<bar>r\<bar> \<and> \<bar>r\<bar> < \<bar>real_of_int (py_int r)\<bar> + 1 \<and>
   0 \<le> real_of_int (py_int r) * r"
proof (cases "0 \<le> r")
  case True
  then have "py_int r = \<lfloor>r\<rfloor>" by (simp add: py_int_def)
  moreover have "0 \<le> \<lfloor>r\<rfloor>" using True by simp
  moreover have "real_of_int \<lfloor>r\<rfloor> \<le> r" "r < real_of_int \<lfloor>r\<rfloor> + 1" by linarith+
  ultimately show ?thesis using True by simp
next
  case False
  then have "py_int r = \<lceil>r\<rceil>" by (simp add: py_int_def)
  moreover have "\<lceil>r\<rceil> \<le> 0" using False by (simp add: ceiling_le_zero)
  moreover have "r \<le> real_of_int \<lceil>r\<rceil>" "real_of_int \<lceil>r\<rceil> < r + 1" by linarith+
  ultimately show ?thesis using False by (simp add: mult_nonpos_nonpos)
qed

lemma move_camera_eq:
  "move_camera pan tilt zoom s =
     s\<lparr>osc_sent := osc_sent s @
        [(''/OBSBOT/WebCam/General/SetGimMotorDegree'', [90, py_int pan, py_int tilt]),
         (''/OBSBOT/WebCam/General/SetZoom'', [zoom])]\<rparr>"
  by (simp add: move_camera_def send_message_def)

lemma move_camera_changes: "move_camera pan tilt zoom s \<noteq> s"
proof
  assume "move_camera pan tilt zoom s = s"
  then have "osc_sent (move_camera pan tilt zoom s) = osc_sent s" by simp
  then show False by (simp add: move_camera_eq)
qed

lemma move_camera_sends: "osc_sent (move_camera pan tilt zoom s) \<noteq> osc_sent s"
  by (simp add: move_camera_eq)

text \<open>
  C10: every command \<open>move_camera\<close> dispatches carries the pan and the tilt truncated
  toward zero to integers, \<open>int(pan)\<close> and \<open>int(tilt)\<close>, after the fixed argument 90, and
  the zoom as it is given. The fraction of an angle is dropped there: 64.5 is sent as 64
  and -29.5 as -29.
\<close>

theorem move_camera_sends_truncated:
  "osc_sent (move_camera pan tilt zoom s) =
     osc_sent s @
       [(''/OBSBOT/WebCam/General/SetGimMotorDegree'', [90, py_int pan, py_int tilt]),
        (''/OBSBOT/WebCam/General/SetZoom'', [zoom])] \<and>
   \<bar>real_of_int (py_int pan)\<bar> \<le> \<bar>pan\<bar> \<and> \<bar>pan\<bar> < \<bar>real_of_int (py_int pan)\<bar> + 1 \<and>
   0 \<le> real_of_int (py_int pan) * pan \<and>
   \<bar>real_of_int (py_int tilt)\<bar> \<le> \<bar>tilt\<bar> \<and> \<bar>tilt\<bar> < \<bar>real_of_int (py_int tilt)\<bar> + 1 \<and>
   0 \<le> real_of_int (py_int tilt) * tilt \<and>
   py_int 64.5 = 64 \<and> py_int (- 29.5) = - 29"
proof -
  have "py_int 64.5 = 64" "py_int (- 29.5) = - 29"
    by (simp_all add: py_int_def)
  then show ?thesis
    using py_int_trunc [of pan] py_int_trunc [of tilt]
    by (simp add: move_camera_def send_message_def)
qed

subsection \<open>One tick of the tracking loop\<close>

lemma init_state:
  "BallTrackingCamera_init cfg fs =
     \<lparr>config = cfg,
      osc_sent = [(''/OBSBOT/WebCam/General/Connected'', [1]),
                  (''/OBSBOT/WebCam/General/SelectDevice'', [0]),
                  (''/OBSBOT/WebCam/General/ResetGimbal'', [1])],
      printed = [], files = fs\<rparr>"
  by (simp add: BallTrackingCamera_init_def initialize_camera_def send_message_def)


lemma tick_Interrupt: "tick Interrupt s = (Inl KeyboardInterrupt, s)"
  by (simp add: tick_def receive_ssl_frame_def)


lemma tick_Frame_Cons:
  "tick (Frame (b # bs)) s =
     (case max_ball b bs of
        (x, y, conf) \<Rightarrow>
          if conf > 0.5 then
            (case calculate_camera_angles (config s) x y of
               Inl e \<Rightarrow> (Inl e, s)
             | Inr (pan, tilt) \<Rightarrow>
                 (case calculate_zoom (config s) x y of
                    Inl e \<Rightarrow> (Inl e, s)
                  | Inr zoom \<Rightarrow> (Inr (), move_camera pan tilt zoom s)))
          else (Inr (), s))"
  by (simp add: tick_def receive_ssl_frame_def)

text \<open>
  C3: the confidence gate is a strict threshold. A tick that receives a frame with balls
  acts on it (it is not a tick that does nothing) if and only if the confidence of the
  selected ball is strictly greater than 0.5; with nonzero field dimensions, a command is
  sent if and only if that holds. A detection of confidence exactly 0.5 is not tracked,
  nor is one of confidence 0.0; one of confidence 1.0 is.
\<close>

theorem confidence_gate_strict:
  "(tick (Frame (b # bs)) s \<noteq> (Inr (), s)) = (confidence (max_ball b bs) > 0.5) \<and>
   (field_width (config s) \<noteq> 0 \<and> field_height (config s) \<noteq> 0 \<longrightarrow>
      (osc_sent (snd (tick (Frame (b # bs)) s)) \<noteq> osc_sent s)
        = (confidence (max_ball b bs) > 0.5)) \<and>
   tick (Frame [(x, y, 0.5)]) s = (Inr (), s) \<and>
   tick (Frame [(x, y, 0)]) s = (Inr (), s) \<and>
   tick (Frame [(x, y, 1)]) s \<noteq> (Inr (), s)"
proof -
  obtain bx byy bc where mb: "max_ball b bs = (bx, byy, bc)"
    by (cases "max_ball b bs") auto
  have gate: "(tick (Frame (b' # bs')) s \<noteq> (Inr (), s)) = (confidence (max_ball b' bs') > 0.5)"
    for b' bs'
  proof -
    obtain x' y' c' where "max_ball b' bs' = (x', y', c')"
      by (cases "max_ball b' bs'") auto
    then show ?thesis
      by (auto simp: tick_Frame_Cons confidence_def move_camera_changes calculate_zoom_cases
            split: sum.splits)
  qed
  have sent: "(osc_sent (snd (tick (Frame (b # bs)) s)) \<noteq> osc_sent s)
                = (confidence (max_ball b bs) > 0.5)"
    if "field_width (config s) \<noteq> 0" "field_height (config s) \<noteq> 0"
  proof -
    from that obtain pan tilt where "calculate_camera_angles (config s) bx byy = Inr (pan, tilt)"
      using calculate_camera_angles_returns [of "config s" bx byy] by blast
    with mb show ?thesis
      by (simp add: tick_Frame_Cons confidence_def move_camera_sends calculate_zoom_cases)
  qed
  from gate [of b bs] gate [of "(x, y, 0.5)" "[]"] gate [of "(x, y, 0)" "[]"]
    gate [of "(x, y, 1)" "[]"] sent
  show ?thesis by (simp add: confidence_def)
qed

theorem confidence_gate_strict_witness:
  "field_width (config (BallTrackingCamera_init default_config Map.empty)) \<noteq> 0 \<and>
   field_height (config (BallTrackingCamera_init default_config Map.empty)) \<noteq> 0 \<and>
   osc_sent (snd (tick (Frame [(0, 0, 0.5)]) (BallTrackingCamera_init default_config Map.empty)))
     = osc_sent (BallTrackingCamera_init default_config Map.empty) \<and>
   osc_sent (snd (tick (Frame [(0, 0, 0.6)]) (BallTrackingCamera_init default_config Map.empty)))
     \<noteq> osc_sent (BallTrackingCamera_init default_config Map.empty)"
  using confidence_gate_strict [of "(0, 0, 0.5)" "[]" "BallTrackingCamera_init default_config Map.empty"]
    confidence_gate_strict [of "(0, 0, 0.6)" "[]" "BallTrackingCamera_init default_config Map.empty"]
  by (simp add: confidence_def init_state default_config_def)



text \<open>
  C5: with the default configuration (field width 6000, distances 1000 and 5000, zoom
  0 to 100, pan scale 1.0) a tick that receives the detection \<open>(3000, 0)\<close> of confidence
  0.9 sends exactly the command pan 129, tilt 0, zoom 50.
\<close>

theorem default_detection_at_field_edge:
  "field_width default_config = 6000 \<and> min_distance default_config = 1000 \<and>
   max_distance default_config = 5000 \<and> min_zoom default_config = 0 \<and>
   max_zoom default_config = 100 \<and> pan_scale default_config = 1.0 \<and>
   tick (Frame [(3000, 0, 0.9)]) (s\<lparr>config := default_config\<rparr>) =
     (Inr (),
      s\<lparr>config := default_config,
        osc_sent := osc_sent s @
          [(''/OBSBOT/WebCam/General/SetGimMotorDegree'', [90, 129, 0]),
           (''/OBSBOT/WebCam/General/SetZoom'', [50])]\<rparr>)"
proof -
  have angles: "calculate_camera_angles default_config 3000 0 = Inr (129, 0)"
    by (simp add: calculate_camera_angles_def py_truediv_def default_config_def)
  have zoom: "calculate_zoom default_config 3000 0 = Inr 50"
    using sqrt_3000 by (simp add: calculate_zoom_cases default_config_def py_int_def)
  have trunc: "py_int 129 = 129" "py_int 0 = 0"
    by (simp_all add: py_int_def)
  show ?thesis
    by (simp add: tick_Frame_Cons angles zoom trunc move_camera_eq)
      (simp add: default_config_def)
qed

subsection \<open>The tracking loop\<close>



lemma run_loop_Interrupt:
  "run_loop (Interrupt # evs) s =
     (Returned,
      send_message ''/OBSBOT/WebCam/General/Disconnected'' [1]
        (print (Text ''\<newline>Stopping ball tracking...'') s))"
  by (simp add: tick_Interrupt)








subsection \<open>Calibration mode\<close>










subsection \<open>Saving and loading the configuration\<close>












end
